theory Spec2Isabelle
  imports Complex_Main "HOL-Library.Sublist"
begin

section \<open>Python values of the monitor\<close>

text \<open>
  A Python \<open>str\<close> is a list of Unicode code points (the price notation uses the
  subscript digits U+2080 .. U+2089, which are no 8-bit characters). \<open>ascii\<close> turns an
  ASCII literal of the source into such a list.
\<close>

type_synonym pystr = "nat list"

definition ascii :: "string \<Rightarrow> pystr" where
  "ascii s = map of_char s"

text \<open>
  A Python \<open>float\<close>: a finite double is the rational it denotes; the two infinities and
  NaN are values of their own. (Negative zero is identified with zero: the two compare equal.)
\<close>

datatype pyfloat = Finite rat | PosInf | NegInf | NaN

text \<open>Python's \<open>>\<close> , \<open>>=\<close> and \<open>!=\<close> on floats: every comparison with NaN but \<open>!=\<close> is false.\<close>

fun py_gt :: "pyfloat \<Rightarrow> pyfloat \<Rightarrow> bool" where
  "py_gt NaN b = False"
| "py_gt a NaN = False"
| "py_gt (Finite a) (Finite b) = (b < a)"
| "py_gt a PosInf = False"
| "py_gt NegInf b = False"
| "py_gt PosInf b = True"
| "py_gt (Finite a) NegInf = True"

definition py_ne :: "pyfloat \<Rightarrow> pyfloat \<Rightarrow> bool" where
  "py_ne a b = (a = NaN \<or> b = NaN \<or> a \<noteq> b)"

definition py_ge :: "pyfloat \<Rightarrow> pyfloat \<Rightarrow> bool" where
  "py_ge a b = (py_gt a b \<or> \<not> py_ne a b)"

text \<open>The values a decoded JSON body is made of (and the values of the source's dicts).\<close>

datatype pyval =
    PNone
  | PBool bool
  | PInt int
  | PFloat pyfloat
  | PStr pystr
  | PList "pyval list"
  | PDict "(pystr \<times> pyval) list"

text \<open>
  The dict \<open>parse_order\<close> builds: keys \<open>id\<close>, \<open>side\<close>, \<open>price\<close>, \<open>amount\<close>,
  \<open>collateral\<close>, \<open>token\<close>. (\<open>amount\<close> is a float, or the int \<open>0\<close>, which compares and
  formats as \<open>0.0\<close> does.)
\<close>

record order =
  order_id :: pyval
  side :: pystr
  price :: pyfloat
  amount :: pyfloat
  collateral :: pyfloat
  token :: pystr

section \<open>Double-precision arithmetic\<close>

text \<open>
  IEEE 754 binary64, round to nearest, ties to even: 53 significant bits, least exponent
  of a unit in the last place \<open>-1074\<close>, overflow from \<open>2^1024 - 2^970\<close> upwards.
\<close>

fun bits :: "nat \<Rightarrow> nat" where
  "bits n = (if n = 0 then 0 else Suc (bits (n div 2)))"

declare bits.simps [simp del]

definition pow2 :: "int \<Rightarrow> rat" where
  "pow2 e = (if 0 \<le> e then 2 ^ nat e else 1 / 2 ^ nat (- e))"

text \<open>For \<open>q > 0\<close>: the exponent \<open>e\<close> with \<open>2^e \<le> q < 2^(e+1)\<close>.\<close>

definition ilog2 :: "rat \<Rightarrow> int" where
  "ilog2 q =
     (let e = int (bits (nat (fst (quotient_of q)))) - int (bits (nat (snd (quotient_of q))))
      in if pow2 e \<le> q then e else e - 1)"

definition round_half_even :: "rat \<Rightarrow> int" where
  "round_half_even x =
     (let n = \<lfloor>x\<rfloor>; d = x - of_int n
      in if d < 1 / 2 then n
         else if 1 / 2 < d then n + 1
         else if even n then n else n + 1)"

definition float_of_rat :: "rat \<Rightarrow> pyfloat" where
  "float_of_rat q =
     (if q = 0 then Finite 0
      else let a = \<bar>q\<bar>;
               u = pow2 (max (ilog2 a) (- 1022) - 52);
               r = of_int (round_half_even (a / u)) * u
           in if pow2 1024 \<le> r then (if 0 < q then PosInf else NegInf)
              else Finite (if 0 < q then r else - r))"

datatype pyerr = OverflowError | TypeError | ValueError | AttributeError | ZeroDivisionError

text \<open>\<open>float(n)\<close> for an int: correctly rounded; OverflowError beyond the double range.\<close>

definition float_of_int :: "int \<Rightarrow> pyerr + pyfloat" where
  "float_of_int n =
     (case float_of_rat (of_int n) of
        Finite q \<Rightarrow> Inr (Finite q)
      | _ \<Rightarrow> Inl OverflowError)"

text \<open>Python's float \<open>/\<close> and \<open>*\<close>; a zero divisor raises before anything else is looked at.\<close>

fun py_div :: "pyfloat \<Rightarrow> pyfloat \<Rightarrow> pyerr + pyfloat" where
  "py_div a (Finite b) =
     (if b = 0 then Inl ZeroDivisionError
      else case a of
        Finite x \<Rightarrow> Inr (float_of_rat (x / b))
      | PosInf \<Rightarrow> Inr (if 0 < b then PosInf else NegInf)
      | NegInf \<Rightarrow> Inr (if 0 < b then NegInf else PosInf)
      | NaN \<Rightarrow> Inr NaN)"
| "py_div a NaN = Inr NaN"
| "py_div (Finite x) b = Inr (Finite 0)"
| "py_div a b = Inr NaN"

fun py_mul :: "pyfloat \<Rightarrow> pyfloat \<Rightarrow> pyfloat" where
  "py_mul NaN b = NaN"
| "py_mul a NaN = NaN"
| "py_mul (Finite a) (Finite b) = float_of_rat (a * b)"
| "py_mul (Finite a) PosInf = (if a = 0 then NaN else if 0 < a then PosInf else NegInf)"
| "py_mul (Finite a) NegInf = (if a = 0 then NaN else if 0 < a then NegInf else PosInf)"
| "py_mul PosInf (Finite b) = (if b = 0 then NaN else if 0 < b then PosInf else NegInf)"
| "py_mul NegInf (Finite b) = (if b = 0 then NaN else if 0 < b then NegInf else PosInf)"
| "py_mul PosInf PosInf = PosInf"
| "py_mul NegInf NegInf = PosInf"
| "py_mul PosInf NegInf = NegInf"
| "py_mul NegInf PosInf = NegInf"

section \<open>Built-ins taken as parameters\<close>

text \<open>
  Two functions of the Python runtime are parameters of the model:
  \<^item> \<open>float_str s\<close> is \<open>float(s)\<close> for a \<open>str\<close>; \<open>None\<close> stands for ValueError;
  \<^item> \<open>unicode_nd c\<close> says whether the non-ASCII code point \<open>c\<close> is a decimal digit
    (category Nd), which \<open>\d\<close> matches besides \<open>0\<close> .. \<open>9\<close>.
\<close>

record builtins =
  float_str :: "pystr \<Rightarrow> pyfloat option"
  unicode_nd :: "nat \<Rightarrow> bool"

text \<open>\<open>float(x)\<close>; \<open>bool\<close> is a subclass of \<open>int\<close>.\<close>

definition py_float :: "builtins \<Rightarrow> pyval \<Rightarrow> pyerr + pyfloat" where
  "py_float py x =
     (case x of
        PNone \<Rightarrow> Inl TypeError
      | PBool b \<Rightarrow> Inr (Finite (if b then 1 else 0))
      | PInt n \<Rightarrow> float_of_int n
      | PFloat f \<Rightarrow> Inr f
      | PStr s \<Rightarrow> (case float_str py s of None \<Rightarrow> Inl ValueError | Some f \<Rightarrow> Inr f)
      | PList xs \<Rightarrow> Inl TypeError
      | PDict d \<Rightarrow> Inl TypeError)"

text \<open>
  A concrete runtime for evaluating the model: \<open>plain_decimal\<close> is \<open>float(s)\<close> on the
  strings \<open>[+-]digits[.digits]\<close> of ASCII digits, where Python returns the double nearest
  to the decimal (it gives \<open>None\<close> on every other string, so it stands for \<open>float\<close> on
  strings of that shape only), and no code point beyond ASCII counts as a digit.
\<close>

definition is_ascii_digit :: "nat \<Rightarrow> bool" where
  "is_ascii_digit c = (48 \<le> c \<and> c \<le> 57)"

definition digits_value :: "pystr \<Rightarrow> nat" where
  "digits_value ds = foldl (\<lambda>n c. 10 * n + (c - 48)) 0 ds"

definition plain_decimal :: "pystr \<Rightarrow> pyfloat option" where
  "plain_decimal s =
     (let neg = (s \<noteq> [] \<and> hd s = 45);
          body = (if s \<noteq> [] \<and> (hd s = 45 \<or> hd s = 43) then tl s else s);
          ip = takeWhile is_ascii_digit body;
          fp = (case dropWhile is_ascii_digit body of [] \<Rightarrow> [] | c # r \<Rightarrow> r);
          v = of_nat (digits_value (ip @ fp)) / 10 ^ length fp
      in if (case dropWhile is_ascii_digit body of [] \<Rightarrow> True | c # r \<Rightarrow> c = 46)
            \<and> list_all is_ascii_digit fp \<and> ip @ fp \<noteq> []
         then Some (float_of_rat (if neg then - v else v)) else None)"

definition cpython_ascii :: builtins where
  "cpython_ascii = \<lparr>float_str = plain_decimal, unicode_nd = (\<lambda>c. False)\<rparr>"

section \<open>parse_special_price\<close>

definition re_digit :: "builtins \<Rightarrow> nat \<Rightarrow> bool" where
  "re_digit py c = (48 \<le> c \<and> c \<le> 57 \<or> unicode_nd py c)"

text \<open>
  The source's \<open>subscript_map\<close>: the subscript digits U+2080 .. U+2089 to the characters
  \<open>0\<close> .. \<open>9\<close>.
\<close>

definition subscript_map :: "(nat \<times> nat) list" where
  "subscript_map =
     [(8320, 48), (8321, 49), (8322, 50), (8323, 51), (8324, 52),
      (8325, 53), (8326, 54), (8327, 55), (8328, 56), (8329, 57)]"

text \<open>
  \<open>re.match(r'0\.0[...](\d+)', price_str)\<close>: anchored at the start only; the result is
  group 1, the longest run of digits after the subscript.
\<close>

fun re_match_price :: "builtins \<Rightarrow> pystr \<Rightarrow> pystr option" where
  "re_match_price py (c0 # c1 # c2 # c3 # rest) =
     (if c0 = 48 \<and> c1 = 46 \<and> c2 = 48 \<and> c3 \<in> fst ` set subscript_map
         \<and> takeWhile (re_digit py) rest \<noteq> []
      then Some (takeWhile (re_digit py) rest) else None)"
| "re_match_price py s = None"

text \<open>\<open>try: return float(s) except: return 0.0\<close>\<close>

definition float_or_zero :: "builtins \<Rightarrow> pystr \<Rightarrow> pyfloat" where
  "float_or_zero py s = (case float_str py s of Some f \<Rightarrow> f | None \<Rightarrow> Finite 0)"

definition parse_special_price :: "builtins \<Rightarrow> pyval \<Rightarrow> pyerr + pyfloat" where
  "parse_special_price py price_str =
     (case price_str of
        PBool b \<Rightarrow> py_float py price_str
      | PInt n \<Rightarrow> py_float py price_str
      | PFloat f \<Rightarrow> py_float py price_str
      | PStr s \<Rightarrow>
          (case re_match_price py s of
             Some remaining_digits \<Rightarrow>
               (let subscript_char = s ! 3;
                    zeros_count =
                      (case map_of subscript_map subscript_char of
                         Some d \<Rightarrow> d - 48 | None \<Rightarrow> 0);
                    decimal_str = ascii ''0.'' @ replicate zeros_count 48 @ remaining_digits
                in Inr (float_or_zero py decimal_str))
           | None \<Rightarrow> Inr (float_or_zero py s))
      | _ \<Rightarrow> Inr (Finite 0))"

section \<open>parse_order\<close>

text \<open>\<open>d.get(k, default)\<close> on a dict given by its items (the keys are distinct).\<close>

definition dict_get :: "(pystr \<times> pyval) list \<Rightarrow> pystr \<Rightarrow> pyval \<Rightarrow> pyval" where
  "dict_get d k dflt = (case map_of d k of Some v \<Rightarrow> v | None \<Rightarrow> dflt)"

text \<open>
  The body of the \<open>try\<close>. Only a dict has \<open>.get\<close>; an exception of \<open>float\<close> or of the
  division leaves the body.
\<close>

definition parse_order_body :: "builtins \<Rightarrow> pyval \<Rightarrow> pystr \<Rightarrow> pystr \<Rightarrow> pyerr + order" where
  "parse_order_body py ord sd tok =
     (case ord of
        PDict d \<Rightarrow>
          (case parse_special_price py (dict_get d (ascii ''price'') (PStr (ascii ''0''))) of
             Inl e \<Rightarrow> Inl e
           | Inr pr \<Rightarrow>
               (case py_float py (dict_get d (ascii ''collateral'') (PInt 0)) of
                  Inl e \<Rightarrow> Inl e
                | Inr coll \<Rightarrow>
                    (case (if py_gt pr (Finite 0) then py_div coll pr else Inr (Finite 0)) of
                       Inl e \<Rightarrow> Inl e
                     | Inr am \<Rightarrow>
                         Inr \<lparr>order_id = dict_get d (ascii ''id'') PNone, side = sd,
                              price = pr, amount = am, collateral = coll, token = tok\<rparr>)))
      | _ \<Rightarrow> Inl AttributeError)"

text \<open>\<open>except Exception: return None\<close>\<close>

definition parse_order :: "builtins \<Rightarrow> pyval \<Rightarrow> pystr \<Rightarrow> pystr \<Rightarrow> order option" where
  "parse_order py ord sd tok =
     (case parse_order_body py ord sd tok of Inl e \<Rightarrow> None | Inr x \<Rightarrow> Some x)"

section \<open>get_best_order\<close>

text \<open>\<open>[o for o in orders if o and o['price'] > 0 and o['amount'] > 0]\<close>; \<open>None\<close> is falsy.\<close>

fun valid_orders :: "order option list \<Rightarrow> order list" where
  "valid_orders [] = []"
| "valid_orders (None # os) = valid_orders os"
| "valid_orders (Some x # os) =
     (if py_gt (price x) (Finite 0) \<and> py_gt (amount x) (Finite 0)
      then x # valid_orders os else valid_orders os)"

text \<open>
  Python's \<open>max(xs, key=k)\<close> on a non-empty list: the first element is the candidate, and
  a later element replaces the candidate only when its key is \<open>>\<close> the candidate's.
\<close>

fun py_max :: "('a \<Rightarrow> pyfloat) \<Rightarrow> 'a \<Rightarrow> 'a list \<Rightarrow> 'a" where
  "py_max k m [] = m"
| "py_max k m (x # xs) = py_max k (if py_gt (k x) (k m) then x else m) xs"

definition get_best_order :: "order option list \<Rightarrow> pystr \<Rightarrow> order option" where
  "get_best_order orders sd =
     (if orders = [] then None
      else case valid_orders orders of
        [] \<Rightarrow> None
      | v # vs \<Rightarrow>
          if sd = ascii ''BUY'' then Some (py_max price v vs)
          else Some (py_max collateral v vs))"

section \<open>has_order_changed\<close>

definition has_order_changed :: "order option \<Rightarrow> order option \<Rightarrow> bool" where
  "has_order_changed current_order previous_order =
     (if current_order = None \<and> previous_order = None then False
      else case (current_order, previous_order) of
        (Some c, Some p) \<Rightarrow>
          py_ne (price c) (price p) \<or> py_ne (amount c) (amount p)
          \<or> py_ne (collateral c) (collateral p)
      | _ \<Rightarrow> True)"

section \<open>Formatting\<close>

text \<open>
  The format specifications \<open>:.6f\<close> and \<open>:,.0f\<close>: the exact value rounded to the given
  number of decimals, ties to even; with \<open>,\<close> the integer part is grouped in thousands.
\<close>

fun dec_digits :: "nat \<Rightarrow> pystr" where
  "dec_digits n = (if n < 10 then [48 + n] else dec_digits (n div 10) @ [48 + n mod 10])"

declare dec_digits.simps [simp del]

fun group3 :: "pystr \<Rightarrow> pystr" where
  "group3 ds =
     (if length ds \<le> 3 then ds
      else group3 (take (length ds - 3) ds) @ [44] @ drop (length ds - 3) ds)"

declare group3.simps [simp del]

definition format_f :: "nat \<Rightarrow> bool \<Rightarrow> pyfloat \<Rightarrow> pystr" where
  "format_f prec grouped x =
     (case x of
        NaN \<Rightarrow> ascii ''nan''
      | PosInf \<Rightarrow> ascii ''inf''
      | NegInf \<Rightarrow> ascii ''-inf''
      | Finite q \<Rightarrow>
          (let n = nat (round_half_even (\<bar>q\<bar> * 10 ^ prec));
               ip = dec_digits (n div 10 ^ prec);
               fp = dec_digits (n mod 10 ^ prec)
           in (if q < 0 then [45] else [])
              @ (if grouped then group3 ip else ip)
              @ (if prec = 0 then [] else [46] @ replicate (prec - length fp) 48 @ fp)))"

section \<open>The monitor\<close>

text \<open>The entry of a token in \<open>TOKENS\<close>; \<open>emoji\<close> is optional.\<close>

record token_config =
  chain :: pystr
  emoji :: "pystr option"

text \<open>\<open>{'buy': best_buy, 'sell': best_sell}\<close>\<close>

record snapshot =
  buy :: "order option"
  sell :: "order option"

text \<open>
  The fields of \<open>WhalesMarketMonitor\<close> that \<open>run\<close> reads or writes. \<open>tokens\<close> lists the
  items of the dict in its order.
\<close>

record monitor =
  tokens :: "(pystr \<times> token_config) list"
  seen_order_ids :: "pyval set"
  previous_orders :: "pystr \<rightharpoonup> snapshot"
  initial_display_done :: bool

definition init_monitor :: "(pystr \<times> token_config) list \<Rightarrow> monitor" where
  "init_monitor tks =
     \<lparr>tokens = tks, seen_order_ids = {}, previous_orders = Map.empty,
      initial_display_done = False\<rparr>"

text \<open>\<open>self.tokens.get(token, {}).get('emoji', '')\<close>\<close>

definition token_emoji :: "monitor \<Rightarrow> pystr \<Rightarrow> pystr" where
  "token_emoji self tok =
     (case map_of (tokens self) tok of
        None \<Rightarrow> []
      | Some c \<Rightarrow> (case emoji c of None \<Rightarrow> [] | Some e \<Rightarrow> e))"

definition separator :: pystr where
  "separator = replicate 20 9473"

subsection \<open>create_changed_orders_message\<close>

text \<open>The lines one order adds to the message.\<close>

definition order_block :: "monitor \<Rightarrow> order \<Rightarrow> pystr" where
  "order_block self x =
     (let sd = (if side x = ascii ''BUY'' then ascii ''BUY'' else ascii ''SELL'');
          side_emoji = (if sd = ascii ''BUY'' then [128994] else [128308])
      in token_emoji self (token x) @ [32] @ side_emoji @ ascii '' <b>'' @ token x @ [32] @ sd
           @ ascii ''</b>'' @ [10]
         @ [128176] @ ascii '' Price: $'' @ format_f 6 False (price x) @ [10]
         @ [128230] @ ascii '' Amount: '' @ format_f 0 True (amount x) @ ascii '' tokens'' @ [10]
         @ [128181] @ ascii '' Collateral: $'' @ format_f 0 True (collateral x) @ [10]
         @ separator @ [10])"

fun message_body :: "monitor \<Rightarrow> order option list \<Rightarrow> pystr" where
  "message_body self [] = []"
| "message_body self (None # os) = message_body self os"
| "message_body self (Some x # os) = order_block self x @ message_body self os"

definition create_changed_orders_message :: "monitor \<Rightarrow> order option list \<Rightarrow> pystr option" where
  "create_changed_orders_message self changed =
     (if changed = [] then None
      else Some ([128260] @ ascii '' <b>ORDER UPDATE DETECTED</b> '' @ [128260, 10, 10]
                 @ message_body self changed))"

subsection \<open>display_orders\<close>

text \<open>What \<open>display_orders\<close> prints, one entry for each call of \<open>print\<close>.\<close>

definition display_side :: "pystr \<Rightarrow> order \<Rightarrow> pystr" where
  "display_side label x =
     label @ ascii '': $'' @ format_f 6 False (price x) @ ascii '' | ''
       @ format_f 0 True (amount x) @ ascii '' tokens | $'' @ format_f 0 True (collateral x)"

definition display_token :: "(pystr \<rightharpoonup> snapshot) \<Rightarrow> pystr \<times> token_config \<Rightarrow> pystr list" where
  "display_token all tc =
     (let b = (case all (fst tc) of None \<Rightarrow> None | Some sn \<Rightarrow> buy sn);
          s = (case all (fst tc) of None \<Rightarrow> None | Some sn \<Rightarrow> sell sn)
      in if b \<noteq> None \<or> s \<noteq> None
         then [(case emoji (snd tc) of None \<Rightarrow> [] | Some e \<Rightarrow> e) @ [32] @ fst tc]
              @ (case b of None \<Rightarrow> [] | Some x \<Rightarrow> [display_side ([128994] @ ascii '' BUY'') x])
              @ (case s of None \<Rightarrow> [] | Some x \<Rightarrow> [display_side ([128308] @ ascii '' SELL'') x])
              @ [separator]
         else [])"

definition display_orders :: "monitor \<Rightarrow> (pystr \<rightharpoonup> snapshot) \<Rightarrow> bool \<Rightarrow> pystr list" where
  "display_orders self all is_new =
     [[10] @ (if is_new then [128680] @ ascii '' NEW ORDERS DETECTED '' @ [128680]
              else [128202] @ ascii '' CURRENT MARKET ORDERS''),
      replicate 60 61]
     @ concat (map (display_token all) (tokens self))"

subsection \<open>fetch_orders\<close>

text \<open>
  \<open>fetch_orders\<close> from the decoded body of the response on (\<open>None\<close>: the request or the
  decoding raised): \<open>data.get("data", {}).get("list", [])\<close>, and \<open>[]\<close> when that raises.
\<close>

definition fetch_orders :: "pyval option \<Rightarrow> pyval" where
  "fetch_orders body =
     (case body of
        Some (PDict d) \<Rightarrow>
          (case dict_get d (ascii ''data'') (PDict []) of
             PDict d2 \<Rightarrow> dict_get d2 (ascii ''list'') (PList [])
           | _ \<Rightarrow> PList [])
      | _ \<Rightarrow> PList [])"

text \<open>\<open>for o in x\<close>: a list gives its elements, a dict its keys, a str its characters.\<close>

definition py_iter :: "pyval \<Rightarrow> pyerr + pyval list" where
  "py_iter x =
     (case x of
        PList xs \<Rightarrow> Inr xs
      | PDict d \<Rightarrow> Inr (map (\<lambda>kv. PStr (fst kv)) d)
      | PStr s \<Rightarrow> Inr (map (\<lambda>c. PStr [c]) s)
      | _ \<Rightarrow> Inl TypeError)"

subsection \<open>One cycle of run\<close>

text \<open>
  Lines 195-198 (and 200-203): the fetched records are parsed, filtered to the valid
  orders, and the best one is selected.
\<close>

definition best_of_side :: "builtins \<Rightarrow> pyval option \<Rightarrow> pystr \<Rightarrow> pystr \<Rightarrow> pyerr + order option" where
  "best_of_side py body sd tok =
     (case py_iter (fetch_orders body) of
        Inl e \<Rightarrow> Inl e
      | Inr data \<Rightarrow>
          Inr (get_best_order
                 (map Some (valid_orders (map (\<lambda>raw. parse_order py raw sd tok) data))) sd))"

text \<open>\<open>set.add\<close> raises TypeError on an unhashable element (a list or a dict).\<close>

fun hashable :: "pyval \<Rightarrow> bool" where
  "hashable (PList xs) = False"
| "hashable (PDict d) = False"
| "hashable v = True"

definition add_seen :: "order option \<Rightarrow> pyval set \<Rightarrow> pyerr + pyval set" where
  "add_seen best ids =
     (case best of
        None \<Rightarrow> Inr ids
      | Some x \<Rightarrow> if hashable (order_id x) then Inr (insert (order_id x) ids) else Inl TypeError)"

text \<open>The variables of one cycle: the locals \<open>all_orders\<close> and \<open>changed_orders\<close>, and the set of seen ids.\<close>

record cycle_vars =
  all_orders :: "pystr \<rightharpoonup> snapshot"
  changed_orders :: "order option list"
  seen :: "pyval set"

text \<open>
  The body of \<open>for token in self.tokens.keys()\<close>. \<open>resp tok ty\<close> is the decoded body of the
  response to the request for \<open>tok\<close> and type \<open>ty\<close> in this cycle. The result says
  whether an exception left the body.
\<close>

definition process_token ::
  "builtins \<Rightarrow> (pystr \<rightharpoonup> snapshot) \<Rightarrow> (pystr \<Rightarrow> pystr \<Rightarrow> pyval option) \<Rightarrow> pystr
   \<Rightarrow> cycle_vars \<Rightarrow> pyerr option \<times> cycle_vars" where
  "process_token py prev_orders resp tok vs =
     (case best_of_side py (resp tok (ascii ''buy'')) (ascii ''BUY'') tok of
        Inl e \<Rightarrow> (Some e, vs)
      | Inr best_buy \<Rightarrow>
     (case best_of_side py (resp tok (ascii ''sell'')) (ascii ''SELL'') tok of
        Inl e \<Rightarrow> (Some e, vs)
      | Inr best_sell \<Rightarrow>
          (let prev_buy = (case prev_orders tok of None \<Rightarrow> None | Some p \<Rightarrow> buy p);
               prev_sell = (case prev_orders tok of None \<Rightarrow> None | Some p \<Rightarrow> sell p);
               vs1 = vs\<lparr>all_orders := (all_orders vs)(tok \<mapsto> \<lparr>buy = best_buy, sell = best_sell\<rparr>)\<rparr>;
               vs2 = (if has_order_changed best_buy prev_buy
                      then vs1\<lparr>changed_orders := changed_orders vs1 @ [best_buy]\<rparr> else vs1);
               vs3 = (if has_order_changed best_sell prev_sell
                      then vs2\<lparr>changed_orders := changed_orders vs2 @ [best_sell]\<rparr> else vs2)
           in case add_seen best_buy (seen vs3) of
                Inl e \<Rightarrow> (Some e, vs3)
              | Inr ids1 \<Rightarrow>
                  (case add_seen best_sell ids1 of
                     Inl e \<Rightarrow> (Some e, vs3\<lparr>seen := ids1\<rparr>)
                   | Inr ids2 \<Rightarrow> (None, vs3\<lparr>seen := ids2\<rparr>)))))"

fun process_tokens ::
  "builtins \<Rightarrow> (pystr \<rightharpoonup> snapshot) \<Rightarrow> (pystr \<Rightarrow> pystr \<Rightarrow> pyval option) \<Rightarrow> pystr list
   \<Rightarrow> cycle_vars \<Rightarrow> pyerr option \<times> cycle_vars" where
  "process_tokens py prev_orders resp [] vs = (None, vs)"
| "process_tokens py prev_orders resp (tok # toks) vs =
     (case process_token py prev_orders resp tok vs of
        (Some e, vs') \<Rightarrow> (Some e, vs')
      | (None, vs') \<Rightarrow> process_tokens py prev_orders resp toks vs')"

text \<open>What a cycle does to the outside: a line printed, or a message handed to Telegram.\<close>

datatype event = Print pystr | Telegram pystr

record cycle_result =
  batch :: "order option list"
  events :: "event list"

definition monitoring_line :: pystr where
  "monitoring_line = [10, 9200] @ ascii '' Monitoring for order changes...''"

text \<open>
  The body of \<open>while True\<close> up to the sleep. \<open>sent m\<close> is what \<open>send_telegram_alert\<close>
  returns for the message \<open>m\<close>. An exception of the loop over the tokens ends the cycle
  in the handler of \<open>run\<close>: the locals are dropped, the ids already added stay.
\<close>

definition run_cycle ::
  "builtins \<Rightarrow> (pystr \<Rightarrow> pystr \<Rightarrow> pyval option) \<Rightarrow> (pystr \<Rightarrow> bool) \<Rightarrow> monitor
   \<Rightarrow> monitor \<times> (pyerr + cycle_result)" where
  "run_cycle py resp sent self =
     (case process_tokens py (previous_orders self) resp (map fst (tokens self))
             \<lparr>all_orders = Map.empty, changed_orders = [], seen = seen_order_ids self\<rparr> of
        (Some e, vs) \<Rightarrow> (self\<lparr>seen_order_ids := seen vs\<rparr>, Inl e)
      | (None, vs) \<Rightarrow>
          (let self1 = self\<lparr>seen_order_ids := seen vs, previous_orders := all_orders vs\<rparr>;
               ev1 = (if \<not> initial_display_done self1
                      then map Print (display_orders self1 (all_orders vs) False)
                           @ [Print monitoring_line]
                      else []);
               self2 = (if \<not> initial_display_done self1
                        then self1\<lparr>initial_display_done := True\<rparr> else self1);
               ev2 = (if changed_orders vs \<noteq> []
                      then map Print (display_orders self2 (all_orders vs) True)
                           @ (case create_changed_orders_message self2 (changed_orders vs) of
                                None \<Rightarrow> []
                              | Some m \<Rightarrow>
                                  if m \<noteq> []
                                  then [Telegram m]
                                       @ (if sent m then [Print ([9989] @ ascii '' Alert sent to Telegram'')]
                                          else [])
                                  else [])
                           @ [Print monitoring_line]
                      else [])
           in (self2, Inr \<lparr>batch = changed_orders vs, events = ev1 @ ev2\<rparr>)))"

section \<open>Sample values\<close>

text \<open>An order with finite fields, for evaluating the functions at concrete inputs.\<close>

definition sample_order :: "int \<Rightarrow> rat \<Rightarrow> rat \<Rightarrow> rat \<Rightarrow> order" where
  "sample_order i p a c =
     \<lparr>order_id = PInt i, side = ascii ''BUY'', price = Finite p, amount = Finite a,
      collateral = Finite c, token = ascii ''TEA''\<rparr>"

section \<open>Selection of the best order\<close>

lemma py_gt_trans: "py_gt a b \<Longrightarrow> py_gt b c \<Longrightarrow> py_gt a c"
  by (cases a; cases b; cases c) auto

lemma py_gt_not_ge: "py_gt a b \<Longrightarrow> \<not> py_ge b a"
  by (cases a; cases b) (auto simp: py_ge_def py_ne_def)

lemma py_ge_gt_trans: "py_ge x r \<Longrightarrow> py_gt r m \<Longrightarrow> py_gt x m"
  by (cases x; cases r; cases m) (auto simp: py_ge_def py_ne_def)

lemma py_ge_NaN: "\<not> py_ge a a \<Longrightarrow> \<not> py_ge x a"
  by (cases x; cases a) (auto simp: py_ge_def py_ne_def)

lemma py_max_candidate: "py_max k m xs = m \<or> py_gt (k (py_max k m xs)) (k m)"
proof (induction xs arbitrary: m)
  case Nil
  show ?case by simp
next
  case (Cons x xs)
  show ?case
  proof (cases "py_gt (k x) (k m)")
    case True
    with Cons.IH [of x] show ?thesis by (auto intro: py_gt_trans)
  next
    case False
    with Cons.IH [of m] show ?thesis by simp
  qed
qed

lemma py_max_first:
  "\<exists>ys zs. m # xs = ys @ py_max k m xs # zs
     \<and> (\<forall>y\<in>set ys. \<not> py_ge (k y) (k (py_max k m xs)))
     \<and> (\<forall>z\<in>set zs. \<not> py_gt (k z) (k (py_max k m xs)))"
proof (induction xs arbitrary: m)
  case Nil
  show ?case by (intro exI [of _ "[]"]) simp
next
  case (Cons x xs)
  show ?case
  proof (cases "py_gt (k x) (k m)")
    case True
    let ?r = "py_max k x xs"
    from Cons.IH [of x] obtain ys zs where d: "x # xs = ys @ ?r # zs"
      and b: "\<forall>y\<in>set ys. \<not> py_ge (k y) (k ?r)" and a: "\<forall>z\<in>set zs. \<not> py_gt (k z) (k ?r)"
      by blast
    from py_max_candidate [of k x xs] True have "py_gt (k ?r) (k m)"
      by (auto intro: py_gt_trans)
    then have "\<not> py_ge (k m) (k ?r)" by (rule py_gt_not_ge)
    with d b a True have "m # x # xs = (m # ys) @ ?r # zs
      \<and> (\<forall>y\<in>set (m # ys). \<not> py_ge (k y) (k ?r)) \<and> (\<forall>z\<in>set zs. \<not> py_gt (k z) (k ?r))"
      by simp
    with True show ?thesis by (metis py_max.simps(2))
  next
    case False
    let ?r = "py_max k m xs"
    from Cons.IH [of m] obtain ys zs where d: "m # xs = ys @ ?r # zs"
      and b: "\<forall>y\<in>set ys. \<not> py_ge (k y) (k ?r)" and a: "\<forall>z\<in>set zs. \<not> py_gt (k z) (k ?r)"
      by blast
    have r: "py_max k m (x # xs) = ?r" using False by simp
    show ?thesis
    proof (cases ys)
      case Nil
      with d have e: "m # xs = ?r # zs" by (metis append_Nil)
      then have rm: "m = ?r" and zx: "xs = zs" by blast+
      have "\<not> py_gt (k x) (k ?r)" using False rm by metis
      with a zx have "\<forall>z\<in>set (x # xs). \<not> py_gt (k z) (k ?r)" by simp
      moreover have "m # x # xs = [] @ ?r # (x # xs)" using rm by simp
      ultimately show ?thesis unfolding r by (metis empty_iff list.set(1))
    next
      case (Cons y ys')
      with d have "m # xs = y # (ys' @ ?r # zs)" by (metis append_Cons)
      then have ym: "y = m" and d': "xs = ys' @ ?r # zs" by blast+
      from b Cons ym have nm: "\<not> py_ge (k m) (k ?r)" by simp
      have nx: "\<not> py_ge (k x) (k ?r)"
      proof (cases "?r = m")
        case True
        with nm show ?thesis by (metis py_ge_NaN)
      next
        case False
        with py_max_candidate [of k m xs] have "py_gt (k ?r) (k m)" by simp
        with \<open>\<not> py_gt (k x) (k m)\<close> show ?thesis by (metis py_ge_gt_trans)
      qed
      have "m # x # xs = (m # x # ys') @ ?r # zs" using d' by simp
      moreover have "\<forall>y\<in>set (m # x # ys'). \<not> py_ge (k y) (k ?r)"
        using b Cons ym nx by simp
      ultimately show ?thesis unfolding r using a by blast
    qed
  qed
qed

lemma set_valid_orders:
  "set (valid_orders orders) =
     {x. Some x \<in> set orders \<and> py_gt (price x) (Finite 0) \<and> py_gt (amount x) (Finite 0)}"
  by (induction orders rule: valid_orders.induct) auto

text \<open>
  Claim C3. \<open>get_best_order\<close> keeps the orders that are present and have \<open>price > 0\<close>
  and \<open>amount > 0\<close>, and returns \<open>None\<close> when none is left. Otherwise it returns one of
  the kept orders \<open>r\<close>: for the side \<open>BUY\<close> no kept order has a price greater than that of
  \<open>r\<close>, and every kept order before \<open>r\<close> has a price that is not \<open>>=\<close> that of \<open>r\<close> (the
  first of the maximal ones wins); for the side \<open>SELL\<close> the same holds of the collateral.
\<close>

theorem get_best_order_selects:
  "set (valid_orders orders) =
     {x. Some x \<in> set orders \<and> py_gt (price x) (Finite 0) \<and> py_gt (amount x) (Finite 0)}
   \<and> (valid_orders orders = [] \<longrightarrow> get_best_order orders sd = None)
   \<and> (valid_orders orders \<noteq> [] \<longrightarrow>
        (\<exists>r ys zs. get_best_order orders sd = Some r \<and> valid_orders orders = ys @ r # zs
           \<and> (sd = ascii ''BUY'' \<longrightarrow>
                (\<forall>y\<in>set ys. \<not> py_ge (price y) (price r))
                \<and> (\<forall>z\<in>set zs. \<not> py_gt (price z) (price r)))
           \<and> (sd = ascii ''SELL'' \<longrightarrow>
                (\<forall>y\<in>set ys. \<not> py_ge (collateral y) (collateral r))
                \<and> (\<forall>z\<in>set zs. \<not> py_gt (collateral z) (collateral r)))))"
proof (intro conjI impI)
  show "set (valid_orders orders) =
     {x. Some x \<in> set orders \<and> py_gt (price x) (Finite 0) \<and> py_gt (amount x) (Finite 0)}"
    by (rule set_valid_orders)
next
  assume "valid_orders orders = []"
  then show "get_best_order orders sd = None" by (simp add: get_best_order_def)
next
  assume ne: "valid_orders orders \<noteq> []"
  then obtain v vs where v: "valid_orders orders = v # vs" by (cases "valid_orders orders") auto
  then have o: "orders \<noteq> []" by auto
  have nb: "ascii ''SELL'' \<noteq> ascii ''BUY''" by (simp add: ascii_def)
  show "\<exists>r ys zs. get_best_order orders sd = Some r \<and> valid_orders orders = ys @ r # zs
           \<and> (sd = ascii ''BUY'' \<longrightarrow>
                (\<forall>y\<in>set ys. \<not> py_ge (price y) (price r))
                \<and> (\<forall>z\<in>set zs. \<not> py_gt (price z) (price r)))
           \<and> (sd = ascii ''SELL'' \<longrightarrow>
                (\<forall>y\<in>set ys. \<not> py_ge (collateral y) (collateral r))
                \<and> (\<forall>z\<in>set zs. \<not> py_gt (collateral z) (collateral r)))"
  proof (cases "sd = ascii ''BUY''")
    case True
    from py_max_first [of v vs price] obtain ys zs where
      "v # vs = ys @ py_max price v vs # zs"
      "\<forall>y\<in>set ys. \<not> py_ge (price y) (price (py_max price v vs))"
      "\<forall>z\<in>set zs. \<not> py_gt (price z) (price (py_max price v vs))" by blast
    note d = this
    have g: "get_best_order orders sd = Some (py_max price v vs)"
      using True v o by (simp add: get_best_order_def)
    show ?thesis
      apply (rule exI [of _ "py_max price v vs"])
      apply (rule exI [of _ ys])
      apply (rule exI [of _ zs])
      using g d v True nb by simp
  next
    case False
    from py_max_first [of v vs collateral] obtain ys zs where
      "v # vs = ys @ py_max collateral v vs # zs"
      "\<forall>y\<in>set ys. \<not> py_ge (collateral y) (collateral (py_max collateral v vs))"
      "\<forall>z\<in>set zs. \<not> py_gt (collateral z) (collateral (py_max collateral v vs))" by blast
    note d = this
    have g: "get_best_order orders sd = Some (py_max collateral v vs)"
      using False v o by (simp add: get_best_order_def)
    show ?thesis
      apply (rule exI [of _ "py_max collateral v vs"])
      apply (rule exI [of _ ys])
      apply (rule exI [of _ zs])
      using g d v False by simp
  qed
qed

theorem get_best_order_selects_witness:
  "valid_orders [Some (sample_order 1 2 50 100), None, Some (sample_order 2 3 10 30),
                 Some (sample_order 3 3 0 0), Some (sample_order 4 3 20 60)] \<noteq> []
   \<and> get_best_order [Some (sample_order 1 2 50 100), None, Some (sample_order 2 3 10 30),
                 Some (sample_order 3 3 0 0), Some (sample_order 4 3 20 60)] (ascii ''BUY'')
       = Some (sample_order 2 3 10 30)
   \<and> get_best_order [Some (sample_order 1 2 50 100), None, Some (sample_order 2 3 10 30),
                 Some (sample_order 3 3 0 0), Some (sample_order 4 3 20 60)] (ascii ''SELL'')
       = Some (sample_order 1 2 50 100)"
  using get_best_order_selects
    [of "[Some (sample_order 1 2 50 100), None, Some (sample_order 2 3 10 30),
          Some (sample_order 3 3 0 0), Some (sample_order 4 3 20 60)]" "ascii ''BUY''"]
  by (simp add: get_best_order_def sample_order_def ascii_def)

text \<open>
  Claim C10. A side that is neither \<open>BUY\<close> nor \<open>SELL\<close> raises nothing and is not
  skipped: the \<open>else\<close> branch serves every side other than \<open>BUY\<close>, so such a call selects
  as a \<open>SELL\<close> call does. With the side \<open>HOLD\<close> the order of largest collateral is
  returned.
\<close>

theorem get_best_order_unknown_side_counterexample:
  "get_best_order [Some (sample_order 1 5 2 10), Some (sample_order 2 1 90 90)] (ascii ''HOLD'')
     = Some (sample_order 2 1 90 90)"
  by (simp add: get_best_order_def sample_order_def ascii_def)

theorem get_best_order_other_side:
  "sd \<noteq> ascii ''BUY'' \<Longrightarrow> get_best_order orders sd = get_best_order orders (ascii ''SELL'')"
  by (simp add: get_best_order_def ascii_def split: list.splits)

theorem get_best_order_other_side_witness:
  "ascii ''HOLD'' \<noteq> ascii ''BUY''
   \<and> get_best_order [Some (sample_order 1 5 2 10), Some (sample_order 2 1 90 90)] (ascii ''HOLD'')
      = get_best_order [Some (sample_order 1 5 2 10), Some (sample_order 2 1 90 90)] (ascii ''SELL'')"
  using get_best_order_other_side
    [of "ascii ''HOLD''" "[Some (sample_order 1 5 2 10), Some (sample_order 2 1 90 90)]"]
  by (simp add: ascii_def)

section \<open>Change detection\<close>

lemma py_ne_iff: "a \<noteq> NaN \<Longrightarrow> b \<noteq> NaN \<Longrightarrow> py_ne a b = (a \<noteq> b)"
  by (simp add: py_ne_def)

text \<open>
  Claim C4. \<open>has_order_changed\<close> is false when both orders are absent, true when exactly
  one is present, and for two present orders it is true exactly when price, amount or
  collateral differ by Python's \<open>!=\<close>; on fields that are not NaN that is plain inequality
  of the values, with no tolerance.
\<close>

theorem has_order_changed_cases:
  "has_order_changed None None = False
   \<and> has_order_changed (Some c) None = True
   \<and> has_order_changed None (Some p) = True
   \<and> has_order_changed (Some c) (Some p)
       = (py_ne (price c) (price p) \<or> py_ne (amount c) (amount p)
          \<or> py_ne (collateral c) (collateral p))
   \<and> (NaN \<notin> {price c, amount c, collateral c, price p, amount p, collateral p} \<longrightarrow>
        has_order_changed (Some c) (Some p)
        = (price c \<noteq> price p \<or> amount c \<noteq> amount p \<or> collateral c \<noteq> collateral p))"
  by (auto simp: has_order_changed_def py_ne_def)

theorem has_order_changed_cases_witness:
  "NaN \<notin> {price (sample_order 1 1 100 100), amount (sample_order 1 1 100 100),
            collateral (sample_order 1 1 100 100), price (sample_order 1 1 150 150),
            amount (sample_order 1 1 150 150), collateral (sample_order 1 1 150 150)}
   \<and> has_order_changed (Some (sample_order 1 1 100 100)) (Some (sample_order 1 1 150 150))
   \<and> \<not> has_order_changed (Some (sample_order 1 1 100 100)) (Some (sample_order 1 1 100 100))"
  using has_order_changed_cases [of "sample_order 1 1 100 100" "sample_order 1 1 150 150"]
    has_order_changed_cases [of "sample_order 1 1 100 100" "sample_order 1 1 100 100"]
  by (simp add: sample_order_def py_ne_def)

end
